theory Spec2Isabelle
  imports Complex_Main "HOL-Library.Word"
begin

text \<open>
  A shallow embedding of \<^verbatim>\<open>diffnext/pipelines/pipeline_nova.py\<close>: the orchestration code of
  \<^verbatim>\<open>NOVAPipeline\<close> (\<^verbatim>\<open>__call__\<close>, \<^verbatim>\<open>prepare_latents\<close>, \<^verbatim>\<open>encode_prompt\<close>,
  \<^verbatim>\<open>encode_image\<close>, \<^verbatim>\<open>register_module\<close>).

  Modelling decisions.
  \<^item> The mask schedule is computed as numpy computes it: in float64, every operation
    rounded to the nearest double (ties to even), with \<^verbatim>\<open>np.round\<close> rounding half to even,
    and in int64, which wraps. A finite double is the real number it denotes; infinities
    and NaN are not represented (\<^verbatim>\<open>num_inference_steps = 0\<close>, which divides by zero, is
    outside the model).
  \<^item> \<^verbatim>\<open>np.cos\<close> and \<^verbatim>\<open>PIL.Image.fromarray\<close> are library functions and are parameters
    of the model (the record \<open>libraries\<close>).
  \<^item> Pixel values and the guidance scale are real numbers; rounding of the tensor dtype
    is not modelled.
  \<^item> A tensor is its shape and its indexing function, so that the views \<^verbatim>\<open>permute\<close>,
    \<^verbatim>\<open>unsqueeze_\<close> and \<^verbatim>\<open>expand\<close> are re-indexings, as they are in torch. Only indices inside
    the shape are meaningful. A prompt embedding is the list of its rows along dimension 0.
  \<^item> The collaborators (VAE, text embedding, transformer) are fields of the pipeline
    holding functions; each may fail, and a failure propagates unchanged. They receive no
    reference to the pipeline object (\<^verbatim>\<open>inputs.pop("self")\<close> precedes the transformer call).
  \<^item> Every raise is a value \<open>Inl e\<close>; \<^verbatim>\<open>__call__\<close> returns the pipeline object after the
    call together with the result or the error.
  \<^item> \<^verbatim>\<open>**kwargs\<close> of \<^verbatim>\<open>__call__\<close> is passed through untouched and is left out of the
    \<open>inputs\<close> record.
\<close>

section \<open>Tensors and the tensor operations the pipeline calls\<close>

text \<open>
  The torch and numpy operations the source calls, as re-indexings. \<open>torch_permute\<close>
  raises unless the dimensions are a permutation of the tensor's; \<open>torch_expand4 n\<close> is
  \<^verbatim>\<open>expand(n, -1, -1, -1)\<close>, which keeps a leading dimension equal to \<open>n\<close>, broadcasts a
  leading dimension of size 1, adds a leading dimension to a tensor of rank 3 and raises
  otherwise. \<open>repeat_interleave\<close> acts on dimension 0, the list of rows. \<open>first_axis\<close>
  is the iteration over an array, along its first dimension.
\<close>

datatype py_error = KeyError | RuntimeError | TypeError | CollaboratorError string

definition sum_bind :: "py_error + 'a \<Rightarrow> ('a \<Rightarrow> py_error + 'b) \<Rightarrow> py_error + 'b" where
  "sum_bind m f = (case m of Inl e \<Rightarrow> Inl e | Inr v \<Rightarrow> f v)"

record tensor =
  shape :: "nat list"
  elem :: "nat list \<Rightarrow> real"

definition torch_sub :: "real \<Rightarrow> tensor \<Rightarrow> tensor" where
  "torch_sub c x = x\<lparr>elem := \<lambda>idx. elem x idx - c\<rparr>"

definition torch_div :: "real \<Rightarrow> tensor \<Rightarrow> tensor" where
  "torch_div c x = x\<lparr>elem := \<lambda>idx. elem x idx / c\<rparr>"

definition position :: "nat list \<Rightarrow> nat \<Rightarrow> nat" where
  "position dims d = length (takeWhile (\<lambda>k. k \<noteq> d) dims)"

definition torch_permute :: "nat list \<Rightarrow> tensor \<Rightarrow> py_error + tensor" where
  "torch_permute dims x =
     (if length dims \<noteq> length (shape x) \<or> set dims \<noteq> {0..<length dims}
      then Inl RuntimeError
      else Inr \<lparr>shape = map (\<lambda>d. shape x ! d) dims,
                elem = \<lambda>idx. elem x (map (\<lambda>d. idx ! position dims d) [0..<length dims])\<rparr>)"

definition torch_unsqueeze0 :: "tensor \<Rightarrow> tensor" where
  "torch_unsqueeze0 x = \<lparr>shape = 1 # shape x, elem = \<lambda>idx. elem x (tl idx)\<rparr>"

definition torch_expand4 :: "nat \<Rightarrow> tensor \<Rightarrow> py_error + tensor" where
  "torch_expand4 n x =
     (case shape x of
        [a, b, c, d] \<Rightarrow>
          if a = n then Inr x
          else if a = 1 then Inr \<lparr>shape = [n, b, c, d], elem = \<lambda>idx. elem x (0 # tl idx)\<rparr>
          else Inl RuntimeError
      | [b, c, d] \<Rightarrow> Inr \<lparr>shape = [n, b, c, d], elem = \<lambda>idx. elem x (tl idx)\<rparr>
      | _ \<Rightarrow> Inl RuntimeError)"

definition repeat_interleave :: "nat \<Rightarrow> 'e list \<Rightarrow> 'e list" where
  "repeat_interleave repeats c = concat (map (replicate repeats) c)"

definition first_axis :: "tensor \<Rightarrow> tensor list" where
  "first_axis x =
     map (\<lambda>i. \<lparr>shape = tl (shape x), elem = \<lambda>idx. elem x (i # idx)\<rparr>)
         [0..<(case shape x of [] \<Rightarrow> 0 | n # _ \<Rightarrow> n)]"

section \<open>Library functions and machine numbers\<close>

text \<open>
  \<open>np_cos\<close> is \<^verbatim>\<open>np.cos\<close> on doubles and \<open>Image_fromarray\<close> is \<^verbatim>\<open>PIL.Image.fromarray\<close>,
  which raises for an array whose shape and element type PIL cannot take.

  \<open>float64_round\<close> rounds a real number to the nearest double, ties to even: the exponent
  is that of the number, not below that of the subnormal numbers, and the significand has
  53 bits. \<open>float64_of_int\<close> is the conversion of an integer to a double, \<open>np_pi\<close> is the
  double \<^verbatim>\<open>np.pi\<close>, \<open>np_round\<close> is \<^verbatim>\<open>np.round\<close> on a double (its result is an integer)
  and \<open>astype_int64\<close> is the cast of that integer-valued double to int64, which gives the
  least int64 when the value is out of range.
\<close>

datatype pil_image = PIL_Image tensor

record libraries =
  np_cos :: "real \<Rightarrow> real"
  Image_fromarray :: "tensor \<Rightarrow> py_error + pil_image"

definition np_round :: "real \<Rightarrow> int" where
  "np_round x =
     (let f = \<lfloor>x\<rfloor>; d = x - of_int f
      in if d < 1 / 2 then f
         else if 1 / 2 < d then f + 1
         else if even f then f else f + 1)"

definition float64_round :: "real \<Rightarrow> real" where
  "float64_round x =
     (if x = 0 then 0
      else let e = max \<lfloor>log 2 \<bar>x\<bar>\<rfloor> (- 1022); u = 2 powr of_int (e - 52)
           in sgn x * of_int (np_round (\<bar>x\<bar> / u)) * u)"

definition float64_of_int :: "int \<Rightarrow> real" where
  "float64_of_int n = float64_round (of_int n)"

definition np_pi :: real where
  "np_pi = 884279719003555 / 2 ^ 48"

definition astype_int64 :: "int \<Rightarrow> 64 word" where
  "astype_int64 k =
     (if - (2 ^ 63) \<le> k \<and> k < 2 ^ 63 then word_of_int k else word_of_int (- (2 ^ 63)))"

section \<open>The cosine mask schedule of \<open>__call__\<close>\<close>

text \<open>
  Lines 112 and 114 to 116. \<open>num_patches\<close> is \<^verbatim>\<open>int(np.prod(image_base_size))\<close>, a product
  in int64. \<open>mask_ratios lib S i\<close> is entry \<open>i\<close> of
  \<^verbatim>\<open>np.cos(0.5 * np.pi * np.arange(S + 1) / S)\<close>, \<open>mask_length\<close> is entry \<open>i\<close> of
  \<^verbatim>\<open>np.round(mask_ratios * num_patches).astype("int64")\<close>, and \<open>num_preds\<close> is
  \<^verbatim>\<open>mask_length[:-1] - mask_length[1:]\<close>, the \<open>S\<close> consecutive differences in int64.
\<close>

definition num_patches :: "64 word list \<Rightarrow> int" where
  "num_patches sizes = sint (prod_list sizes)"

definition mask_ratios :: "libraries \<Rightarrow> nat \<Rightarrow> nat \<Rightarrow> real" where
  "mask_ratios lib num_inference_steps i =
     np_cos lib
       (float64_round
          (float64_round (float64_round (0.5 * np_pi) * float64_of_int (int i))
             / float64_of_int (int num_inference_steps)))"

definition mask_length :: "libraries \<Rightarrow> nat \<Rightarrow> int \<Rightarrow> nat \<Rightarrow> 64 word" where
  "mask_length lib num_inference_steps patches i =
     astype_int64
       (np_round (float64_round (mask_ratios lib num_inference_steps i * float64_of_int patches)))"

definition num_preds :: "libraries \<Rightarrow> nat \<Rightarrow> int \<Rightarrow> 64 word list" where
  "num_preds lib num_inference_steps patches =
     map (\<lambda>i. mask_length lib num_inference_steps patches i
              - mask_length lib num_inference_steps patches (i + 1))
         [0..<num_inference_steps]"

section \<open>Collaborators, call arguments and the pipeline object\<close>

text \<open>
  \<open>encode_sample\<close> is \<^verbatim>\<open>vae.encode(x).latent_dist.sample(generator)\<close> and \<open>vae_scale\<close> is
  \<^verbatim>\<open>vae.scale_\<close>; \<open>image_base_size\<close> is \<^verbatim>\<open>transformer.config.image_base_size\<close>,
  \<open>encode_prompts\<close> is \<^verbatim>\<open>transformer.text_embed.encode_prompts\<close>, \<open>forward\<close> is the call
  of the transformer and \<open>postprocess\<close> its post-processing, which returns the updated
  \<open>outputs\<close>. \<open>outputs\<close> holds the entry \<^verbatim>\<open>"x"\<close>. The fields of \<open>inputs\<close> are the
  entries of the dictionary \<^verbatim>\<open>inputs\<close> (prefix \<open>in_\<close>), those of \<open>call_args\<close> the
  parameters of \<^verbatim>\<open>__call__\<close> (prefix \<open>arg_\<close>), and those of \<open>pipeline\<close> the attributes
  that \<^verbatim>\<open>__init__\<close> sets on the pipeline object.
\<close>

type_synonym generator = nat

datatype prompt_arg = PStr string | PList "string list"

datatype component = Component string

record vae_model =
  encode_sample :: "tensor \<Rightarrow> generator option \<Rightarrow> py_error + tensor"
  vae_scale :: "tensor \<Rightarrow> py_error + tensor"

record 'e inputs =
  in_generator :: "generator option"
  in_latents :: "tensor list"
  in_prompt :: "'e list"
  in_num_inference_steps :: nat
  in_num_diffusion_steps :: nat
  in_max_latent_length :: nat
  in_guidance_scale :: real
  in_motion_flow :: "real list"
  in_negative_prompt :: "prompt_arg option"
  in_image :: "tensor option"
  in_num_images_per_prompt :: nat
  in_output_type :: string
  in_num_patches :: int
  in_num_preds :: "64 word list"
  in_tqdm1 :: bool
  in_tqdm2 :: bool
  in_batch_size :: nat

record outputs =
  out_x :: tensor

record 'e transformer_model =
  image_base_size :: "64 word list"
  encode_prompts :: "string list \<Rightarrow> py_error + 'e list"
  forward :: "'e inputs \<Rightarrow> py_error + outputs"
  postprocess :: "outputs \<Rightarrow> vae_model \<Rightarrow> 'e inputs \<Rightarrow> py_error + outputs"

record call_args =
  arg_prompt :: prompt_arg
  arg_num_inference_steps :: nat
  arg_num_diffusion_steps :: nat
  arg_max_latent_length :: nat
  arg_guidance_scale :: real
  arg_motion_flow :: real
  arg_negative_prompt :: "prompt_arg option"
  arg_image :: "tensor option"
  arg_num_images_per_prompt :: nat
  arg_generator :: "generator option"
  arg_output_type :: string

record 'e pipeline =
  vae :: vae_model
  text_encoder :: component
  tokenizer :: component
  transformer :: "'e transformer_model"
  scheduler :: component
  tokenizer_max_length :: nat
  guidance_scale :: real

section \<open>\<open>encode_prompt\<close>\<close>

text \<open>
  Lines 168 to 175. A prompt argument is a string or a list of strings, a negative
  prompt may be \<^verbatim>\<open>None\<close>. \<open>py_or a b\<close> is \<^verbatim>\<open>a or b\<close>: \<^verbatim>\<open>None\<close>, the empty string and
  the empty list are false. \<open>prompt_list\<close> is line 171, \<open>encode_prompt_negative\<close> the
  value of \<^verbatim>\<open>negative_prompt\<close> after line 172 and \<open>encode_prompt_prompts\<close> the value of
  \<^verbatim>\<open>prompts\<close> after line 173.
\<close>

fun truthy :: "prompt_arg \<Rightarrow> bool" where
  "truthy (PStr s) = (s \<noteq> [])"
| "truthy (PList l) = (l \<noteq> [])"

definition py_or :: "prompt_arg option \<Rightarrow> prompt_arg \<Rightarrow> prompt_arg" where
  "py_or a b = (case a of None \<Rightarrow> b | Some v \<Rightarrow> if truthy v then v else b)"

definition select_or_pad :: "prompt_arg option \<Rightarrow> prompt_arg \<Rightarrow> nat \<Rightarrow> string list" where
  "select_or_pad a b n =
     (case py_or a b of PStr s \<Rightarrow> replicate n s | PList l \<Rightarrow> l)"

definition prompt_list :: "prompt_arg \<Rightarrow> string list" where
  "prompt_list prompt = (case prompt of PStr s \<Rightarrow> [s] | PList l \<Rightarrow> l)"

definition encode_prompt_negative :: "prompt_arg \<Rightarrow> prompt_arg option \<Rightarrow> string list" where
  "encode_prompt_negative prompt negative_prompt =
     select_or_pad negative_prompt (PStr []) (length (prompt_list prompt))"

definition encode_prompt_prompts ::
  "'e pipeline \<Rightarrow> prompt_arg \<Rightarrow> prompt_arg option \<Rightarrow> string list" where
  "encode_prompt_prompts self prompt negative_prompt =
     prompt_list prompt
       @ (if guidance_scale self > 1 then encode_prompt_negative prompt negative_prompt else [])"

definition encode_prompt ::
  "'e pipeline \<Rightarrow> prompt_arg \<Rightarrow> nat \<Rightarrow> prompt_arg option \<Rightarrow> py_error + 'e list" where
  "encode_prompt self prompt num_images_per_prompt negative_prompt =
     sum_bind (encode_prompts (transformer self)
                 (encode_prompt_prompts self prompt negative_prompt))
       (\<lambda>c. Inr (repeat_interleave num_images_per_prompt c))"

section \<open>\<open>encode_image\<close> and \<open>prepare_latents\<close>\<close>

text \<open>
  Lines 191 to 194 and 148 to 151. \<open>encode_image_tensor\<close> is the value of \<^verbatim>\<open>x\<close> after
  line 192.
\<close>

definition encode_image_tensor :: "tensor \<Rightarrow> py_error + tensor" where
  "encode_image_tensor image0 =
     sum_bind (torch_permute [2, 0, 1] (torch_div 127.5 (torch_sub 127.5 image0)))
       (\<lambda>x. Inr (torch_unsqueeze0 x))"

definition encode_image ::
  "'e pipeline \<Rightarrow> tensor \<Rightarrow> nat \<Rightarrow> generator option \<Rightarrow> py_error + tensor" where
  "encode_image self image0 num_images_per_prompt generator =
     sum_bind (encode_image_tensor image0) (\<lambda>x.
     sum_bind (encode_sample (vae self) x generator) (\<lambda>x.
     sum_bind (vae_scale (vae self) x) (\<lambda>x.
     torch_expand4 num_images_per_prompt x)))"

definition prepare_latents ::
  "'e pipeline \<Rightarrow> tensor option \<Rightarrow> nat \<Rightarrow> generator option \<Rightarrow> py_error + tensor list" where
  "prepare_latents self image_opt num_images_per_prompt generator =
     (let latents = [] in
      case image_opt of
        None \<Rightarrow> Inr latents
      | Some image0 \<Rightarrow>
          sum_bind (encode_image self image0 num_images_per_prompt generator)
            (\<lambda>latent. Inr (latents @ [latent])))"

section \<open>\<open>__call__\<close>\<close>

text \<open>
  Lines 111 to 130. \<open>call_inputs\<close> is the dictionary \<^verbatim>\<open>inputs\<close> as the transformer
  receives it (lines 112 to 121: of the entries whose key contains \<^verbatim>\<open>prompt\<close>,
  \<open>encode_prompt\<close> takes \<^verbatim>\<open>prompt\<close>, \<^verbatim>\<open>num_images_per_prompt\<close> and
  \<^verbatim>\<open>negative_prompt\<close>), \<open>call_outputs\<close> is \<^verbatim>\<open>outputs\<close> after lines 122 and 123, and
  \<open>call_result\<close> is lines 124 to 130. \<open>Latent\<close> is the torch tensor returned as it is,
  \<open>Ndarray\<close> the array after \<^verbatim>\<open>.cpu().numpy()\<close>, \<open>PIL_list\<close> the list of the images
  \<^verbatim>\<open>PIL.Image.fromarray\<close> returns, and \<open>NOVAPipelineOutput\<close> carries the keyword
  arguments it is constructed with. \<open>map_result\<close> is the list comprehension of line 129:
  it raises the error of the first element on which the function raises.
\<close>

datatype output_value = Ndarray tensor | PIL_list "pil_image list"

datatype call_return = Latent tensor | NOVAPipelineOutput "(string \<times> output_value) list"

fun map_result :: "('a \<Rightarrow> py_error + 'b) \<Rightarrow> 'a list \<Rightarrow> py_error + 'b list" where
  "map_result f [] = Inr []"
| "map_result f (v # vs) =
     sum_bind (f v) (\<lambda>w. sum_bind (map_result f vs) (\<lambda>ws. Inr (w # ws)))"

definition output_names :: "nat \<rightharpoonup> string" where
  "output_names = [4 \<mapsto> ''images'', 5 \<mapsto> ''frames'']"

definition call_inputs ::
  "libraries \<Rightarrow> 'e pipeline \<Rightarrow> call_args \<Rightarrow> py_error + 'e inputs" where
  "call_inputs lib self a =
     (let patches = num_patches (image_base_size (transformer self)) in
      sum_bind (encode_prompt self (arg_prompt a) (arg_num_images_per_prompt a)
                  (arg_negative_prompt a)) (\<lambda>prompt.
      sum_bind (prepare_latents self (arg_image a) (arg_num_images_per_prompt a)
                  (arg_generator a)) (\<lambda>latents.
      let batch_size = length prompt div (if arg_guidance_scale a > 1 then 2 else 1) in
      Inr \<lparr>in_generator = arg_generator a,
           in_latents = latents,
           in_prompt = prompt,
           in_num_inference_steps = arg_num_inference_steps a,
           in_num_diffusion_steps = arg_num_diffusion_steps a,
           in_max_latent_length = arg_max_latent_length a,
           in_guidance_scale = arg_guidance_scale a,
           in_motion_flow = replicate batch_size (arg_motion_flow a),
           in_negative_prompt = arg_negative_prompt a,
           in_image = arg_image a,
           in_num_images_per_prompt = arg_num_images_per_prompt a,
           in_output_type = arg_output_type a,
           in_num_patches = patches,
           in_num_preds = num_preds lib (arg_num_inference_steps a) patches,
           in_tqdm1 = (arg_max_latent_length a > 1),
           in_tqdm2 = (arg_max_latent_length a = 1),
           in_batch_size = batch_size\<rparr>)))"

definition call_outputs ::
  "libraries \<Rightarrow> 'e pipeline \<Rightarrow> call_args \<Rightarrow> py_error + outputs" where
  "call_outputs lib self a =
     sum_bind (call_inputs lib self a) (\<lambda>inputs.
     sum_bind (forward (transformer self) inputs) (\<lambda>outputs.
     postprocess (transformer self) outputs (vae self) inputs))"

definition call_result ::
  "libraries \<Rightarrow> string \<Rightarrow> outputs \<Rightarrow> py_error + call_return" where
  "call_result lib output_type outputs =
     (if output_type \<in> {''latent'', ''pt''} then Inr (Latent (out_x outputs))
      else
        let arr = out_x outputs in
        case output_names (length (shape arr)) of
          None \<Rightarrow> Inl KeyError
        | Some output_name \<Rightarrow>
            sum_bind
              (if output_type = ''pil'' \<and> output_name = ''images''
               then sum_bind (map_result (Image_fromarray lib) (first_axis arr))
                      (\<lambda>images. Inr (PIL_list images))
               else Inr (Ndarray arr))
              (\<lambda>v. Inr (NOVAPipelineOutput [(output_name, v)])))"

definition call ::
  "libraries \<Rightarrow> 'e pipeline \<Rightarrow> call_args \<Rightarrow> 'e pipeline \<times> (py_error + call_return)" where
  "call lib self a =
     (let self = self\<lparr>guidance_scale := arg_guidance_scale a\<rparr>
      in (self, sum_bind (call_outputs lib self a) (call_result lib (arg_output_type a))))"

section \<open>\<open>register_module\<close>\<close>

text \<open>
  Lines 209 to 217. \<open>annotations\<close> is \<^verbatim>\<open>self.__init__.__annotations__\<close>, a parameter here;
  \<open>init_annotations\<close> is its value for \<^verbatim>\<open>__init__\<close> as written, whose parameters carry
  no annotation. \<open>dtype\<close> and \<open>device\<close> are the pipeline's, \<open>config\<close> is the registered
  configuration. An object is \<^verbatim>\<open>None\<close>, a string, a module given by the caller (by its
  class name), the result of \<^verbatim>\<open>cls.from_pretrained(path, torch_dtype=dtype)\<close>, an object
  moved by \<^verbatim>\<open>.to(device)\<close>, or the result of \<^verbatim>\<open>cls()\<close>.
\<close>

record py_class =
  class_name :: string
  has_from_pretrained :: bool
  is_nn_module :: bool

datatype py_object =
    NoneObj
  | Str string
  | Module string
  | FromPretrained py_class string string
  | To py_object string
  | Constructed py_class

fun object_class_name :: "py_object \<Rightarrow> string" where
  "object_class_name NoneObj = ''NoneType''"
| "object_class_name (Str s) = ''str''"
| "object_class_name (Module n) = n"
| "object_class_name (FromPretrained cls path torch_dtype) = class_name cls"
| "object_class_name (To model device) = object_class_name model"
| "object_class_name (Constructed cls) = class_name cls"

definition init_annotations :: "string \<rightharpoonup> py_class" where
  "init_annotations = Map.empty"

definition register_module ::
  "(string \<rightharpoonup> py_class) \<Rightarrow> string \<Rightarrow> string \<Rightarrow> (string \<rightharpoonup> string)
     \<Rightarrow> py_object \<Rightarrow> string \<Rightarrow> py_error + (py_object \<times> (string \<rightharpoonup> string))" where
  "register_module annotations dtype device config model_or_path name =
     sum_bind
       (let model = model_or_path in
        case model_or_path of
          Str path \<Rightarrow>
            (case annotations name of
               None \<Rightarrow> Inl KeyError
             | Some cls \<Rightarrow>
                 let model =
                       (if has_from_pretrained cls \<and> path \<noteq> []
                        then (let model = FromPretrained cls path dtype
                              in if is_nn_module cls then To model device else model)
                        else model);
                     model = Constructed cls
                 in Inr model)
        | _ \<Rightarrow> Inr model)
       (\<lambda>model. Inr (model, config(name \<mapsto> object_class_name model)))"

section \<open>Default arguments and a concrete set of collaborators\<close>

text \<open>
  \<open>default_args\<close> holds the defaults of the signature of \<^verbatim>\<open>__call__\<close>. The \<open>example_\<close>
  definitions are one concrete pipeline on which the model is evaluated: the text embedding
  encodes a prompt as its length, the VAE is the identity and the transformer returns a
  zero tensor of a given shape. \<open>example_cos\<close> holds the doubles that \<^verbatim>\<open>np.cos\<close> returns at
  the doubles 0, \<^verbatim>\<open>np.pi / 4\<close> and \<^verbatim>\<open>np.pi / 2\<close>, the arguments of a schedule of two steps:
  1, \<^verbatim>\<open>0.7071067811865476\<close> and \<^verbatim>\<open>6.123233995736766e-17\<close>. \<open>example_fromarray\<close> follows the
  type map of PIL for an array of bytes: it takes an array of rank 2, or of rank 3 with 2,
  3 or 4 channels, and raises \<open>TypeError\<close> for any other.
\<close>

definition default_args :: "prompt_arg \<Rightarrow> call_args" where
  "default_args prompt =
     \<lparr>arg_prompt = prompt,
      arg_num_inference_steps = 64,
      arg_num_diffusion_steps = 25,
      arg_max_latent_length = 1,
      arg_guidance_scale = 5,
      arg_motion_flow = 5,
      arg_negative_prompt = None,
      arg_image = None,
      arg_num_images_per_prompt = 1,
      arg_generator = None,
      arg_output_type = ''pil''\<rparr>"

definition example_vae :: vae_model where
  "example_vae = \<lparr>encode_sample = (\<lambda>x generator. Inr x), vae_scale = (\<lambda>x. Inr x)\<rparr>"

definition example_transformer :: "nat list \<Rightarrow> nat transformer_model" where
  "example_transformer out_shape =
     \<lparr>image_base_size = [2, 2],
      encode_prompts = (\<lambda>prompts. Inr (map length prompts)),
      forward = (\<lambda>inputs. Inr \<lparr>out_x = \<lparr>shape = out_shape, elem = (\<lambda>idx. 0)\<rparr>\<rparr>),
      postprocess = (\<lambda>outputs v inputs. Inr outputs)\<rparr>"

definition example_pipeline :: "nat list \<Rightarrow> real \<Rightarrow> nat pipeline" where
  "example_pipeline out_shape g =
     \<lparr>vae = example_vae,
      text_encoder = Component ''text_encoder'',
      tokenizer = Component ''tokenizer'',
      transformer = example_transformer out_shape,
      scheduler = Component ''scheduler'',
      tokenizer_max_length = 256,
      guidance_scale = g\<rparr>"

definition example_cos :: "real \<Rightarrow> real" where
  "example_cos v =
     (if v = 0 then 1
      else if v = 884279719003555 / 2 ^ 50 then 6369051672525773 / 2 ^ 53
      else if v = 884279719003555 / 2 ^ 49 then 4967757600021511 / 2 ^ 106
      else 0)"

definition example_fromarray :: "tensor \<Rightarrow> py_error + pil_image" where
  "example_fromarray arr =
     (if length (shape arr) = 2
         \<or> (length (shape arr) = 3 \<and> last (shape arr) \<in> {2, 3, 4})
      then Inr (PIL_Image arr) else Inl TypeError)"

definition example_lib :: libraries where
  "example_lib = \<lparr>np_cos = example_cos, Image_fromarray = example_fromarray\<rparr>"

definition example_image :: tensor where
  "example_image =
     \<lparr>shape = [1, 1, 3], elem = (\<lambda>idx. if idx = [0, 0, 0] then 0 else 255)\<rparr>"

section \<open>Helper lemmas\<close>

lemma sum_bind_Inr [simp]: "sum_bind (Inr v) f = f v"
  by (simp add: sum_bind_def)

lemma sum_bind_Inl [simp]: "sum_bind (Inl e) f = Inl e"
  by (simp add: sum_bind_def)

lemma length_repeat_interleave: "length (repeat_interleave k c) = length c * k"
  by (induction c) (simp_all add: repeat_interleave_def)

lemma nth_repeat_interleave:
  "i < length c * k \<Longrightarrow> repeat_interleave k c ! i = c ! (i div k)"
proof (induction c arbitrary: i)
  case Nil
  then show ?case by simp
next
  case (Cons a c)
  have k: "0 < k" using Cons.prems by (cases k) simp_all
  show ?case
  proof (cases "i < k")
    case True
    then show ?thesis by (simp add: repeat_interleave_def nth_append)
  next
    case False
    then have "i - k < length c * k" using Cons.prems by simp
    then have "repeat_interleave k c ! (i - k) = c ! ((i - k) div k)"
      by (rule Cons.IH)
    moreover have "i div k = Suc ((i - k) div k)"
      using False k by (simp add: le_div_geq)
    ultimately show ?thesis
      using False by (simp add: repeat_interleave_def nth_append)
  qed
qed

lemma length_encode_prompt_negative:
  "length (encode_prompt_negative prompt negative_prompt) =
     (case negative_prompt of
        Some (PList l) \<Rightarrow> if l = [] then length (prompt_list prompt) else length l
      | _ \<Rightarrow> length (prompt_list prompt))"
  by (simp add: encode_prompt_negative_def select_or_pad_def py_or_def
      split: option.splits prompt_arg.splits)

section \<open>Properties of the schedule\<close>

lemma np_round_of_int: "np_round (of_int k) = k"
  by (simp add: np_round_def)

lemma np_round_bounds: "\<lfloor>x\<rfloor> \<le> np_round x \<and> np_round x \<le> \<lfloor>x\<rfloor> + 1"
  by (simp add: np_round_def Let_def)

lemma np_round_mono:
  assumes "x \<le> y"
  shows "np_round x \<le> np_round y"
proof (cases "\<lfloor>x\<rfloor> = \<lfloor>y\<rfloor>")
  case True
  with assms have "x - of_int \<lfloor>x\<rfloor> \<le> y - of_int \<lfloor>y\<rfloor>" by simp
  with True show ?thesis
    by (auto simp: np_round_def Let_def)
next
  case False
  with assms have "\<lfloor>x\<rfloor> + 1 \<le> \<lfloor>y\<rfloor>"
    using floor_mono [OF assms] by linarith
  with np_round_bounds [of x] np_round_bounds [of y] show ?thesis
    by linarith
qed

lemma float64_round_zero: "float64_round 0 = 0"
  by (simp add: float64_round_def)

lemma float64_round_minus: "float64_round (- x) = - float64_round x"
  by (simp add: float64_round_def Let_def sgn_minus)

lemma float64_round_pos_eq:
  assumes "0 < x"
  shows "float64_round x =
     of_int (np_round (x / 2 powr of_int (max \<lfloor>log 2 x\<rfloor> (- 1022) - 52)))
       * 2 powr of_int (max \<lfloor>log 2 x\<rfloor> (- 1022) - 52)"
  using assms by (simp add: float64_round_def Let_def)

lemma float64_round_nonneg:
  assumes "0 \<le> x"
  shows "0 \<le> float64_round x"
proof (cases "x = 0")
  case True
  then show ?thesis by (simp add: float64_round_zero)
next
  case False
  with assms have x: "0 < x" by simp
  let ?u = "2 powr of_int (max \<lfloor>log 2 x\<rfloor> (- 1022) - 52)"
  have "0 \<le> x / ?u" using x by simp
  then have "0 \<le> np_round (x / ?u)"
    using np_round_mono [of 0 "x / ?u"] np_round_of_int [of 0] by simp
  then show ?thesis
    unfolding float64_round_pos_eq [OF x] by simp
qed

lemma float64_round_exact_pos:
  assumes m: "0 < m" "real_of_int m < 2 powr 53" and e: "- 1074 \<le> e"
  shows "float64_round (of_int m * 2 powr of_int e) = of_int m * 2 powr of_int e"
proof -
  define x :: real where "x = of_int m * 2 powr of_int e"
  have x: "0 < x" using m by (simp add: x_def)
  define E where "E = max \<lfloor>log 2 x\<rfloor> (- 1022)"
  have "x < 2 powr 53 * 2 powr of_int e"
    unfolding x_def using m(2) by (intro mult_strict_right_mono) simp_all
  also have "\<dots> = 2 powr (53 + of_int e)"
    by (simp add: powr_add)
  finally have "log 2 x < 53 + of_int e"
    using x by (simp add: log_less_iff)
  then have "\<lfloor>log 2 x\<rfloor> < 53 + e"
    by linarith
  then have d: "0 \<le> e - (E - 52)"
    using e by (simp add: E_def)
  define k where "k = nat (e - (E - 52))"
  have "e = (E - 52) + int k"
    using d by (simp add: k_def)
  then have "(2::real) powr of_int e = 2 powr (real_of_int (E - 52) + real k)"
    by simp
  also have "\<dots> = 2 powr real_of_int (E - 52) * 2 ^ k"
    by (simp only: powr_add powr_realpow [of 2 k, simplified])
  finally have p: "(2::real) powr of_int e = 2 powr of_int (E - 52) * 2 ^ k" .
  have q: "x / 2 powr of_int (E - 52) = of_int (m * 2 ^ k)"
    by (simp add: x_def p)
  have "float64_round x = of_int (np_round (x / 2 powr of_int (E - 52))) * 2 powr of_int (E - 52)"
    unfolding E_def by (rule float64_round_pos_eq [OF x])
  also have "\<dots> = of_int (m * 2 ^ k) * 2 powr of_int (E - 52)"
    unfolding q np_round_of_int ..
  also have "\<dots> = x"
    by (simp add: x_def p)
  finally show ?thesis unfolding x_def .
qed

lemma float64_round_exact:
  assumes "\<bar>real_of_int m\<bar> < 2 powr 53" and "- 1074 \<le> e"
  shows "float64_round (of_int m * 2 powr of_int e) = of_int m * 2 powr of_int e"
proof -
  consider "m = 0" | "0 < m" | "m < 0" by linarith
  then show ?thesis
  proof cases
    case 1
    then show ?thesis by (simp add: float64_round_zero)
  next
    case 2
    with assms show ?thesis by (intro float64_round_exact_pos) simp_all
  next
    case 3
    with assms have "float64_round (of_int (- m) * 2 powr of_int e) = of_int (- m) * 2 powr of_int e"
      by (intro float64_round_exact_pos) simp_all
    then show ?thesis
      using float64_round_minus [of "of_int m * 2 powr of_int e"] by simp
  qed
qed

lemma powr_split: "(2::real) powr real_of_int (a + int k) = 2 ^ k * 2 powr real_of_int a"
proof -
  have "(2::real) powr real_of_int (a + int k) = 2 powr (real_of_int a + real k)"
    by simp
  also have "\<dots> = 2 powr real_of_int a * 2 powr real k"
    by (rule powr_add)
  also have "(2::real) powr real k = 2 ^ k"
    by (simp add: powr_realpow)
  finally show ?thesis by (simp add: mult.commute)
qed

lemma float64_round_upper:
  assumes x: "0 < x"
  shows "float64_round x \<le> 2 powr of_int (max \<lfloor>log 2 x\<rfloor> (- 1022) + 1)"
proof -
  define E where "E = max \<lfloor>log 2 x\<rfloor> (- 1022)"
  define u :: real where "u = 2 powr of_int (E - 52)"
  have u: "0 < u" by (simp add: u_def)
  have e: "E - 52 + int 53 = E + 1" by simp
  have s: "2 powr real_of_int (E + 1) = 2 ^ 53 * u"
    unfolding u_def by (rule powr_split [of "E - 52" 53, unfolded e])
  have "log 2 x < of_int (\<lfloor>log 2 x\<rfloor> + 1)" by linarith
  also have "\<dots> \<le> of_int (E + 1)" unfolding E_def by simp
  finally have "x < 2 powr of_int (E + 1)"
    using x by (simp add: log_less_iff del: of_int_add)
  then have "x / u \<le> 2 ^ 53"
    unfolding s using u by (simp add: field_simps)
  then have "x / u \<le> of_int (2 ^ 53)" by simp
  from np_round_mono [OF this] have "np_round (x / u) \<le> 2 ^ 53"
    unfolding np_round_of_int .
  then have "real_of_int (np_round (x / u)) \<le> of_int (2 ^ 53)"
    by (simp only: of_int_le_iff)
  then have "real_of_int (np_round (x / u)) * u \<le> of_int (2 ^ 53) * u"
    using u by (intro mult_right_mono) simp_all
  also have "\<dots> = 2 powr of_int (E + 1)"
    unfolding s by simp
  finally show ?thesis
    unfolding float64_round_pos_eq [OF x] E_def [symmetric] u_def [symmetric] .
qed

lemma float64_round_lower:
  assumes x: "0 < x" and n: "- 1022 \<le> \<lfloor>log 2 x\<rfloor>"
  shows "2 powr of_int \<lfloor>log 2 x\<rfloor> \<le> float64_round x"
proof -
  define E where "E = \<lfloor>log 2 x\<rfloor>"
  have m: "max \<lfloor>log 2 x\<rfloor> (- 1022) = \<lfloor>log 2 x\<rfloor>" using n by simp
  define u :: real where "u = 2 powr of_int (E - 52)"
  have u: "0 < u" by (simp add: u_def)
  have e: "E - 52 + int 52 = E" by simp
  have s: "2 powr real_of_int E = 2 ^ 52 * u"
    unfolding u_def by (rule powr_split [of "E - 52" 52, unfolded e])
  have "of_int E \<le> log 2 x" unfolding E_def by simp
  then have "2 powr of_int E \<le> x"
    using x by (simp add: le_log_iff)
  then have "2 ^ 52 \<le> x / u"
    unfolding s using u by (simp add: field_simps)
  then have "of_int (2 ^ 52) \<le> x / u" by simp
  from np_round_mono [OF this] have "2 ^ 52 \<le> np_round (x / u)"
    unfolding np_round_of_int .
  then have "real_of_int (2 ^ 52) \<le> of_int (np_round (x / u))"
    by (simp only: of_int_le_iff)
  then have "real_of_int (2 ^ 52) * u \<le> of_int (np_round (x / u)) * u"
    using u by (intro mult_right_mono) simp_all
  moreover have "real_of_int (2 ^ 52) * u = 2 powr of_int E"
    unfolding s by simp
  ultimately have "2 powr of_int E \<le> of_int (np_round (x / u)) * u" by simp
  then show ?thesis
    unfolding float64_round_pos_eq [OF x] m u_def E_def .
qed

lemma float64_round_mono_pos:
  assumes x: "0 < x" and xy: "x \<le> y"
  shows "float64_round x \<le> float64_round y"
proof -
  have y: "0 < y" using x xy by simp
  define Ex where "Ex = max \<lfloor>log 2 x\<rfloor> (- 1022)"
  define Ey where "Ey = max \<lfloor>log 2 y\<rfloor> (- 1022)"
  have "log 2 x \<le> log 2 y" using x xy by simp
  then have "\<lfloor>log 2 x\<rfloor> \<le> \<lfloor>log 2 y\<rfloor>" by (rule floor_mono)
  then have le: "Ex \<le> Ey" by (simp add: Ex_def Ey_def)
  show ?thesis
  proof (cases "Ex = Ey")
    case True
    have "x / 2 powr of_int (Ex - 52) \<le> y / 2 powr of_int (Ex - 52)"
      using xy by (simp add: divide_right_mono)
    from np_round_mono [OF this]
    have "real_of_int (np_round (x / 2 powr of_int (Ex - 52)))
            \<le> of_int (np_round (y / 2 powr of_int (Ex - 52)))"
      by (simp only: of_int_le_iff)
    then have "real_of_int (np_round (x / 2 powr of_int (Ex - 52))) * 2 powr of_int (Ex - 52)
            \<le> real_of_int (np_round (y / 2 powr of_int (Ex - 52))) * 2 powr of_int (Ex - 52)"
      by (intro mult_right_mono) simp_all
    then show ?thesis
      unfolding float64_round_pos_eq [OF x] float64_round_pos_eq [OF y]
        Ex_def [symmetric] Ey_def [symmetric] True [symmetric] .
  next
    case False
    with le have lt: "Ex + 1 \<le> Ey" by simp
    then have n: "- 1022 \<le> \<lfloor>log 2 y\<rfloor>" and Ey: "Ey = \<lfloor>log 2 y\<rfloor>"
      unfolding Ex_def Ey_def by linarith+
    have "float64_round x \<le> 2 powr of_int (Ex + 1)"
      unfolding Ex_def by (rule float64_round_upper [OF x])
    also have "\<dots> \<le> 2 powr of_int Ey"
      using lt by simp
    also have "\<dots> \<le> float64_round y"
      unfolding Ey by (rule float64_round_lower [OF y n])
    finally show ?thesis .
  qed
qed

lemma float64_round_nonpos: "x \<le> 0 \<Longrightarrow> float64_round x \<le> 0"
  using float64_round_nonneg [of "- x"] by (simp add: float64_round_minus)

lemma float64_round_mono:
  assumes "x \<le> y"
  shows "float64_round x \<le> float64_round y"
proof -
  consider "0 < x" | "x \<le> 0" "0 \<le> y" | "y < 0" by linarith
  then show ?thesis
  proof cases
    case 1
    then show ?thesis using assms by (rule float64_round_mono_pos)
  next
    case 2
    then show ?thesis
      using float64_round_nonpos [of x] float64_round_nonneg [of y] by linarith
  next
    case 3
    then have "float64_round (- y) \<le> float64_round (- x)"
      using assms by (intro float64_round_mono_pos) simp_all
    then show ?thesis by (simp add: float64_round_minus)
  qed
qed

lemma float64_round_of_int:
  assumes "\<bar>n\<bar> < 2 ^ 53"
  shows "float64_round (of_int n) = of_int n"
proof -
  have "\<bar>real_of_int n\<bar> < of_int (2 ^ 53)"
    using assms by (simp only: of_int_abs [symmetric] of_int_less_iff)
  then have "\<bar>real_of_int n\<bar> < 2 powr 53"
    by simp
  from float64_round_exact [OF this, of 0] show ?thesis by simp
qed

lemma float64_round_half: "float64_round (1 / 2) = 1 / 2"
  using float64_round_exact [of 1 "- 1"] by (simp add: powr_minus)

section \<open>Properties of \<open>encode_prompt\<close>\<close>

text \<open>
  Claim C5, as stated, fails: a non-empty list given as negative prompt is used as it is,
  whatever its length. Two prompts with the one-element negative list \<open>[''x'']\<close> give a
  negative list of length 1, not 2.
\<close>

theorem select_or_pad_not_padded:
  "length (encode_prompt_negative (PList [''a'', ''b'']) (Some (PList [''x''])))
     \<noteq> length (prompt_list (PList [''a'', ''b'']))"
  by (simp add: encode_prompt_negative_def select_or_pad_def py_or_def prompt_list_def)

text \<open>
  Claim C5, amended. With \<open>N\<close> the number of prompts: an absent negative prompt becomes
  \<open>N\<close> empty strings; a string negative prompt becomes \<open>N\<close> copies of it; an empty list
  becomes \<open>N\<close> empty strings; a non-empty list is used unchanged. The negative prompts are
  appended to the prompts exactly when the pipeline's \<open>guidance_scale\<close> exceeds 1.
\<close>

theorem encode_prompt_negative_cases:
  "encode_prompt_negative prompt None = replicate (length (prompt_list prompt)) ''''
   \<and> encode_prompt_negative prompt (Some (PStr s)) = replicate (length (prompt_list prompt)) s
   \<and> encode_prompt_negative prompt (Some (PList l)) =
        (if l = [] then replicate (length (prompt_list prompt)) '''' else l)
   \<and> encode_prompt_prompts self prompt negative_prompt =
        (if guidance_scale self > 1
         then prompt_list prompt @ encode_prompt_negative prompt negative_prompt
         else prompt_list prompt)"
  by (simp add: encode_prompt_negative_def select_or_pad_def py_or_def encode_prompt_prompts_def)

text \<open>
  Claim C2, as stated, fails for the same input: with \<open>guidance_scale = 5\<close>, two prompts,
  one image per prompt and the negative list \<open>[''x'']\<close>, three rows are encoded, not four.
\<close>

theorem encode_prompt_rows_counterexample:
  "encode_prompt (example_pipeline [] 5) (PList [''a'', ''b'']) 1 (Some (PList [''x'']))
     = Inr [1, 1, 1]
   \<and> length [1, 1, 1 :: nat] \<noteq> 2 * length [''a'', ''b''] * 1"
  by (simp add: encode_prompt_def encode_prompt_prompts_def encode_prompt_negative_def
      select_or_pad_def py_or_def prompt_list_def example_pipeline_def
      example_transformer_def repeat_interleave_def)

text \<open>
  Claim C2, amended. When the text embedding returns one row per prompt text,
  \<open>encode_prompt\<close> returns \<open>(N + M) * K\<close> rows when the pipeline's \<open>guidance_scale\<close> exceeds 1
  and \<open>N * K\<close> rows otherwise, where \<open>N\<close> is the number of prompts, \<open>K\<close> is
  \<open>num_images_per_prompt\<close> and \<open>M\<close> is the length of the negative list: \<open>N\<close> unless the
  negative prompt is a non-empty list, whose own length it then is. Row \<open>i\<close> of the result
  is encoded row \<open>i div K\<close>: every encoded row is repeated \<open>K\<close> times contiguously, the
  prompts first and the negative prompts after them.
\<close>

theorem encode_prompt_rows:
  assumes "encode_prompts (transformer self) (encode_prompt_prompts self prompt negative_prompt)
             = Inr c"
      and "length c = length (encode_prompt_prompts self prompt negative_prompt)"
  shows "\<exists>rows. encode_prompt self prompt k negative_prompt = Inr rows
           \<and> length rows =
               (if guidance_scale self > 1
                then (length (prompt_list prompt)
                        + (case negative_prompt of
                             Some (PList l) \<Rightarrow>
                               if l = [] then length (prompt_list prompt) else length l
                           | _ \<Rightarrow> length (prompt_list prompt))) * k
                else length (prompt_list prompt) * k)
           \<and> (\<forall>i < length rows. rows ! i = c ! (i div k))"
proof -
  have r: "encode_prompt self prompt k negative_prompt = Inr (repeat_interleave k c)"
    using assms(1) by (simp add: encode_prompt_def)
  have l: "length c =
      (if guidance_scale self > 1
       then length (prompt_list prompt)
              + (case negative_prompt of
                   Some (PList l) \<Rightarrow>
                     if l = [] then length (prompt_list prompt) else length l
                 | _ \<Rightarrow> length (prompt_list prompt))
       else length (prompt_list prompt))"
    unfolding assms(2) encode_prompt_prompts_def
    by (simp add: length_encode_prompt_negative)
  show ?thesis
    unfolding r using l
    by (simp add: length_repeat_interleave nth_repeat_interleave)
qed

text \<open>
  The amended claim C2 at two prompts, a string negative prompt and two images per prompt.
\<close>

theorem encode_prompt_rows_witness:
  "encode_prompts (transformer (example_pipeline [] 5))
       (encode_prompt_prompts (example_pipeline [] 5) (PList [''a'', ''b'']) (Some (PStr ''x'')))
     = Inr [1, 1, 1, 1]
   \<and> encode_prompt (example_pipeline [] 5) (PList [''a'', ''b'']) 2 (Some (PStr ''x''))
     = Inr [1, 1, 1, 1, 1, 1, 1, 1]"
  using encode_prompt_rows [of "example_pipeline [] 5" "PList [''a'', ''b'']" "Some (PStr ''x'')"
      "[1, 1, 1, 1]" 2]
  by (simp add: encode_prompt_def encode_prompt_prompts_def encode_prompt_negative_def
      select_or_pad_def py_or_def prompt_list_def example_pipeline_def
      example_transformer_def repeat_interleave_def eval_nat_numeral)

section \<open>Properties of \<open>encode_image\<close> and \<open>prepare_latents\<close>\<close>

lemma torch_permute_201:
  assumes "shape t = [H, W, C]"
  shows "torch_permute [2, 0, 1] t =
           Inr \<lparr>shape = [C, H, W], elem = \<lambda>idx. elem t [idx ! 1, idx ! 2, idx ! 0]\<rparr>"
proof -
  have s: "set [2, 0, 1 :: nat] = {0..<length [2, 0, 1 :: nat]}"
    by (auto simp: eval_nat_numeral)
  have m: "map (\<lambda>d. idx ! position [2, 0, 1] d) [0..<length [2, 0, 1 :: nat]]
             = [idx ! 1, idx ! 2, idx ! 0]" for idx :: "nat list"
    by (simp add: position_def eval_nat_numeral)
  have d: "map (\<lambda>d. shape t ! d) [2, 0, 1] = [C, H, W]"
    using assms by (simp add: eval_nat_numeral)
  show ?thesis
    unfolding torch_permute_def m d using s assms by simp
qed

lemma encode_image_tensor_eq:
  assumes "shape image0 = [H, W, C]"
  shows "encode_image_tensor image0 =
           Inr \<lparr>shape = [1, C, H, W],
                elem = \<lambda>idx. (elem image0 [tl idx ! 1, tl idx ! 2, tl idx ! 0] - 127.5) / 127.5\<rparr>"
proof -
  have "shape (torch_div 127.5 (torch_sub 127.5 image0)) = [H, W, C]"
    using assms by (simp add: torch_div_def torch_sub_def)
  from torch_permute_201 [OF this] show ?thesis
    by (simp add: encode_image_tensor_def torch_unsqueeze0_def torch_div_def torch_sub_def)
qed

lemma torch_expand4_batch1:
  assumes "shape y = [1, c, h, w]"
  shows "\<exists>r. torch_expand4 k y = Inr r \<and> shape r = [k, c, h, w]
           \<and> (\<forall>i<k. \<forall>idx. elem r (i # idx) = elem y (0 # idx))"
  using assms by (cases "k = 1") (auto simp: torch_expand4_def)

lemma normalize_range:
  fixes v :: real
  assumes "0 \<le> v" "v \<le> 255"
  shows "- 1 \<le> (v - 127.5) / 127.5 \<and> (v - 127.5) / 127.5 \<le> 1"
  using assms by (simp add: field_simps)

text \<open>
  Claim C6. For a seed image of shape \<open>[H, W, C]\<close> with pixel values in \<open>[0, 255]\<close>, the
  tensor handed to the VAE has shape \<open>[1, C, H, W]\<close> (channel first, with a leading batch
  dimension), its entry at \<open>[0, c, h, w]\<close> is \<open>(image[h, w, c] - 127.5) / 127.5\<close>, which lies
  in \<open>[-1, 1]\<close>, with 0 mapped to -1 and 255 to 1. When the VAE's encode-and-sample step and
  then its scale operation return a latent of shape \<open>[1, c', h', w']\<close>, \<open>encode_image\<close>
  returns a tensor of shape \<open>[K, c', h', w']\<close> each of whose \<open>K\<close> rows is that latent's
  row. \<open>prepare_latents\<close> returns the empty list without an image and the one-element
  list of that encoded latent with one.
\<close>

theorem encode_image_contract:
  assumes "shape image0 = [H, W, C]"
      and "\<forall>h<H. \<forall>w<W. \<forall>c<C. 0 \<le> elem image0 [h, w, c] \<and> elem image0 [h, w, c] \<le> 255"
  shows "\<exists>x0. encode_image_tensor image0 = Inr x0
           \<and> shape x0 = [1, C, H, W]
           \<and> (\<forall>c h w. elem x0 [0, c, h, w] = (elem image0 [h, w, c] - 127.5) / 127.5)
           \<and> (\<forall>c<C. \<forall>h<H. \<forall>w<W. - 1 \<le> elem x0 [0, c, h, w] \<and> elem x0 [0, c, h, w] \<le> 1)
           \<and> (\<forall>c h w. elem image0 [h, w, c] = 0 \<longrightarrow> elem x0 [0, c, h, w] = - 1)
           \<and> (\<forall>c h w. elem image0 [h, w, c] = 255 \<longrightarrow> elem x0 [0, c, h, w] = 1)
           \<and> (\<forall>z y c' h' w'.
                 encode_sample (vae self) x0 generator = Inr z
                 \<and> vae_scale (vae self) z = Inr y
                 \<and> shape y = [1, c', h', w'] \<longrightarrow>
                 (\<exists>r. encode_image self image0 k generator = Inr r
                    \<and> shape r = [k, c', h', w']
                    \<and> (\<forall>i<k. \<forall>idx. elem r (i # idx) = elem y (0 # idx))
                    \<and> prepare_latents self (Some image0) k generator = Inr [r]))
           \<and> prepare_latents self None k generator = Inr []"
proof -
  define x0 where "x0 = \<lparr>shape = [1, C, H, W],
      elem = \<lambda>idx. (elem image0 [tl idx ! 1, tl idx ! 2, tl idx ! 0] - 127.5) / 127.5\<rparr>"
  have t: "encode_image_tensor image0 = Inr x0"
    unfolding x0_def by (rule encode_image_tensor_eq [OF assms(1)])
  have s: "shape x0 = [1, C, H, W]" by (simp add: x0_def)
  have e: "elem x0 [0, c, h, w] = (elem image0 [h, w, c] - 127.5) / 127.5" for c h w
    by (simp add: x0_def)
  have r: "\<forall>c<C. \<forall>h<H. \<forall>w<W. - 1 \<le> elem x0 [0, c, h, w] \<and> elem x0 [0, c, h, w] \<le> 1"
    unfolding e using assms(2) normalize_range by blast
  have lo: "elem image0 [h, w, c] = 0 \<longrightarrow> elem x0 [0, c, h, w] = - 1" for c h w
    by (simp add: e)
  have hi: "elem image0 [h, w, c] = 255 \<longrightarrow> elem x0 [0, c, h, w] = 1" for c h w
    by (simp add: e)
  have v: "\<exists>r. encode_image self image0 k generator = Inr r
             \<and> shape r = [k, c', h', w']
             \<and> (\<forall>i<k. \<forall>idx. elem r (i # idx) = elem y (0 # idx))
             \<and> prepare_latents self (Some image0) k generator = Inr [r]"
    if "encode_sample (vae self) x0 generator = Inr z" "vae_scale (vae self) z = Inr y"
      "shape y = [1, c', h', w']" for z y c' h' w'
  proof -
    from torch_expand4_batch1 [OF that(3), of k] obtain r where
      r: "torch_expand4 k y = Inr r" "shape r = [k, c', h', w']"
        "\<forall>i<k. \<forall>idx. elem r (i # idx) = elem y (0 # idx)"
      by blast
    have "encode_image self image0 k generator = Inr r"
      by (simp add: encode_image_def t that(1,2) r(1))
    then show ?thesis
      using r(2,3) by (simp add: prepare_latents_def)
  qed
  have n: "prepare_latents self None k generator = Inr []"
    by (simp add: prepare_latents_def)
  show ?thesis
    using t s e r lo hi v n by blast
qed

text \<open>
  Claim C6 at a one-pixel RGB image with the channel values 0, 255, 255 and two images per
  prompt.
\<close>

theorem encode_image_contract_witness:
  "shape example_image = [1, 1, 3]
   \<and> (\<exists>r. encode_image (example_pipeline [] 5) example_image 2 None = Inr r
          \<and> shape r = [2, 3, 1, 1]
          \<and> elem r [1, 0, 0, 0] = - 1
          \<and> elem r [1, 1, 0, 0] = 1
          \<and> prepare_latents (example_pipeline [] 5) (Some example_image) 2 None = Inr [r])
   \<and> prepare_latents (example_pipeline [] 5) None 2 None = Inr []"
proof -
  let ?P = "example_pipeline [] 5"
  have sh: "shape example_image = [1, 1, 3]"
    by (simp add: example_image_def)
  have rg: "\<forall>h<1. \<forall>w<1. \<forall>c<3.
      0 \<le> elem example_image [h, w, c] \<and> elem example_image [h, w, c] \<le> 255"
    by (simp add: example_image_def)
  from encode_image_contract [OF sh rg, of ?P None 2]
  obtain x0 where
    s: "shape x0 = [1, 3, 1, 1]" and
    e: "\<forall>c h w. elem x0 [0, c, h, w] = (elem example_image [h, w, c] - 127.5) / 127.5" and
    v: "\<forall>z y c' h' w'.
          encode_sample (vae ?P) x0 None = Inr z \<and> vae_scale (vae ?P) z = Inr y
          \<and> shape y = [1, c', h', w'] \<longrightarrow>
          (\<exists>r. encode_image ?P example_image 2 None = Inr r
             \<and> shape r = [2, c', h', w']
             \<and> (\<forall>i<2. \<forall>idx. elem r (i # idx) = elem y (0 # idx))
             \<and> prepare_latents ?P (Some example_image) 2 None = Inr [r])" and
    n: "prepare_latents ?P None 2 None = Inr []"
    by blast
  have "encode_sample (vae ?P) x0 None = Inr x0 \<and> vae_scale (vae ?P) x0 = Inr x0
          \<and> shape x0 = [1, 3, 1, 1]"
    using s by (simp add: example_pipeline_def example_vae_def)
  with v obtain r where
    r: "encode_image ?P example_image 2 None = Inr r" "shape r = [2, 3, 1, 1]"
      "\<forall>i<2. \<forall>idx. elem r (i # idx) = elem x0 (0 # idx)"
      "prepare_latents ?P (Some example_image) 2 None = Inr [r]"
    by blast
  have "elem r [1, 0, 0, 0] = elem x0 [0, 0, 0, 0]" "elem r [1, 1, 0, 0] = elem x0 [0, 1, 0, 0]"
    using r(3) by simp_all
  then have "elem r [1, 0, 0, 0] = - 1" "elem r [1, 1, 0, 0] = 1"
    using e by (simp_all add: example_image_def)
  with sh r n show ?thesis by blast
qed

section \<open>Properties of \<open>__call__\<close>\<close>

lemma call_snd:
  "snd (call lib self a) =
     sum_bind (call_outputs lib (self\<lparr>guidance_scale := arg_guidance_scale a\<rparr>) a)
       (call_result lib (arg_output_type a))"
  by (simp add: call_def Let_def)

lemma example_call_outputs:
  "call_outputs lib (example_pipeline out_shape g\<lparr>guidance_scale := g'\<rparr>)
       (default_args p\<lparr>arg_output_type := t\<rparr>)
     = Inr \<lparr>out_x = \<lparr>shape = out_shape, elem = (\<lambda>idx. 0)\<rparr>\<rparr>"
  by (simp add: call_outputs_def call_inputs_def encode_prompt_def prepare_latents_def
      example_pipeline_def example_transformer_def default_args_def Let_def)

lemma repeat_interleave_one: "repeat_interleave (Suc 0) c = c"
  by (induction c) (simp_all add: repeat_interleave_def)

lemma replicate_two: "replicate 2 v = [v, v]"
  by (simp add: numeral_2_eq_2)

text \<open>
  Claim C8. Every call leaves the pipeline object with its \<open>guidance_scale\<close> field set to
  the \<open>guidance_scale\<close> argument and every other field (\<open>vae\<close>, \<open>text_encoder\<close>,
  \<open>tokenizer\<close>, \<open>transformer\<close>, \<open>scheduler\<close>, \<open>tokenizer_max_length\<close>) as it was, also when
  the call raises.
\<close>

theorem call_sets_guidance_scale:
  "fst (call lib self a) = self\<lparr>guidance_scale := arg_guidance_scale a\<rparr>"
  by (simp add: call_def Let_def)

text \<open>
  Claim C7. For the prompts \<open>[''a cat'', ''a dog'']\<close> with \<open>guidance_scale = 5\<close>, one image per
  prompt and no negative prompt, the text embedding is asked for the four texts
  \<open>[''a cat'', ''a dog'', '''', '''']\<close>; when it returns four rows, these rows are the prompt
  batch handed to the transformer, \<open>batch_size\<close> is 2 and \<open>motion_flow\<close> is a list of two
  copies of the motion flow argument.
\<close>

theorem call_inputs_two_prompts:
  assumes "arg_prompt a = PList [''a cat'', ''a dog'']"
      and "arg_guidance_scale a = 5"
      and "arg_num_images_per_prompt a = 1"
      and "arg_negative_prompt a = None"
      and "encode_prompts (transformer self) [''a cat'', ''a dog'', '''', ''''] = Inr c"
      and "length c = 4"
      and "prepare_latents (self\<lparr>guidance_scale := arg_guidance_scale a\<rparr>) (arg_image a)
             (arg_num_images_per_prompt a) (arg_generator a) = Inr latents"
  shows "\<exists>inputs. call_inputs lib (self\<lparr>guidance_scale := arg_guidance_scale a\<rparr>) a = Inr inputs
           \<and> in_prompt inputs = c
           \<and> length (in_prompt inputs) = 4
           \<and> in_batch_size inputs = 2
           \<and> in_motion_flow inputs = [arg_motion_flow a, arg_motion_flow a]"
proof -
  have p: "encode_prompt (self\<lparr>guidance_scale := arg_guidance_scale a\<rparr>) (arg_prompt a)
             (arg_num_images_per_prompt a) (arg_negative_prompt a) = Inr c"
    using assms(1-5)
    by (simp add: encode_prompt_def encode_prompt_prompts_def encode_prompt_negative_def
        select_or_pad_def py_or_def prompt_list_def repeat_interleave_one eval_nat_numeral)
  show ?thesis
    using assms(2,6,7) p by (simp add: call_inputs_def Let_def replicate_two)
qed

text \<open>
  Claim C7 on the example pipeline with the default arguments.
\<close>

theorem call_inputs_two_prompts_witness:
  "\<exists>inputs. call_inputs example_lib (example_pipeline [] 1\<lparr>guidance_scale := 5\<rparr>)
       (default_args (PList [''a cat'', ''a dog''])) = Inr inputs
     \<and> in_prompt inputs = [5, 5, 0, 0]
     \<and> length (in_prompt inputs) = 4
     \<and> in_batch_size inputs = 2
     \<and> in_motion_flow inputs = [5, 5]"
  using call_inputs_two_prompts [of "default_args (PList [''a cat'', ''a dog''])"
      "example_pipeline [] 1" "[5, 5, 0, 0]" "[]"]
  by (simp add: default_args_def example_pipeline_def example_transformer_def
      prepare_latents_def)

text \<open>
  Claim C4, as stated, fails: a tensor of rank 4 with \<open>output_type = ''pil''\<close> gives no
  result tagged \<open>images\<close> when \<^verbatim>\<open>PIL.Image.fromarray\<close> raises. For a tensor of shape
  \<open>[1, 2, 2, 7]\<close>, whose one image has seven channels, the call raises \<open>TypeError\<close>.
\<close>

theorem call_result_tagging_counterexample:
  "snd (call example_lib (example_pipeline [1, 2, 2, 7] 1) (default_args (PStr ''a cat'')))
     = Inl TypeError"
  by (simp add: call_snd example_call_outputs [where t = "''pil''", unfolded default_args_def, simplified]
      call_result_def output_names_def first_axis_def example_lib_def example_fromarray_def
      default_args_def Let_def)

text \<open>
  Claim C4, amended. When the stages before the output have produced \<open>outputs\<close>: for
  \<open>output_type\<close> \<open>''latent''\<close> or \<open>''pt''\<close> the call returns the raw tensor \<open>outputs["x"]\<close>,
  neither converted to an array nor to images. Otherwise a tensor of rank 4 gives a
  result tagged \<open>images\<close>: it holds the array when \<open>output_type\<close> is not \<open>''pil''\<close>, and
  the PIL images when \<open>output_type\<close> is \<open>''pil''\<close> and \<^verbatim>\<open>PIL.Image.fromarray\<close> takes every
  image of the batch; when \<^verbatim>\<open>PIL.Image.fromarray\<close> raises on one of them, the call raises
  that error and returns no result. A tensor of rank 5 gives a result tagged \<open>frames\<close>
  holding the array. PIL images are made only when \<open>output_type\<close> is \<open>''pil''\<close> and the tag
  is \<open>images\<close>.
\<close>

theorem call_result_tagging:
  assumes "call_outputs lib (self\<lparr>guidance_scale := arg_guidance_scale a\<rparr>) a = Inr outputs"
  shows "(arg_output_type a \<in> {''latent'', ''pt''} \<longrightarrow>
            snd (call lib self a) = Inr (Latent (out_x outputs)))
       \<and> (arg_output_type a \<notin> {''latent'', ''pt'', ''pil''}
            \<and> length (shape (out_x outputs)) = 4 \<longrightarrow>
            snd (call lib self a)
              = Inr (NOVAPipelineOutput [(''images'', Ndarray (out_x outputs))]))
       \<and> (arg_output_type a = ''pil'' \<and> length (shape (out_x outputs)) = 4
            \<and> map_result (Image_fromarray lib) (first_axis (out_x outputs)) = Inr images \<longrightarrow>
            snd (call lib self a) = Inr (NOVAPipelineOutput [(''images'', PIL_list images)]))
       \<and> (arg_output_type a = ''pil'' \<and> length (shape (out_x outputs)) = 4
            \<and> map_result (Image_fromarray lib) (first_axis (out_x outputs)) = Inl e \<longrightarrow>
            snd (call lib self a) = Inl e)
       \<and> (arg_output_type a \<notin> {''latent'', ''pt''} \<and> length (shape (out_x outputs)) = 5 \<longrightarrow>
            snd (call lib self a) = Inr (NOVAPipelineOutput [(''frames'', Ndarray (out_x outputs))]))"
  unfolding call_snd assms
  by (simp add: call_result_def output_names_def Let_def)

text \<open>
  The amended claim C4 on the example pipeline: \<open>''latent''\<close> and \<open>''np''\<close> with a tensor of
  rank 4, \<open>''pil''\<close> with a tensor of rank 4 of three channels and of seven channels, and
  \<open>''np''\<close> with a tensor of rank 5.
\<close>

theorem call_result_tagging_witness:
  "snd (call example_lib (example_pipeline [1, 2, 2, 3] 1)
          (default_args (PStr ''a cat'')\<lparr>arg_output_type := ''latent''\<rparr>))
     = Inr (Latent \<lparr>shape = [1, 2, 2, 3], elem = (\<lambda>idx. 0)\<rparr>)
   \<and> snd (call example_lib (example_pipeline [1, 2, 2, 3] 1)
          (default_args (PStr ''a cat'')\<lparr>arg_output_type := ''np''\<rparr>))
     = Inr (NOVAPipelineOutput
              [(''images'', Ndarray \<lparr>shape = [1, 2, 2, 3], elem = (\<lambda>idx. 0)\<rparr>)])
   \<and> snd (call example_lib (example_pipeline [1, 2, 2, 3] 1)
          (default_args (PStr ''a cat'')\<lparr>arg_output_type := ''pil''\<rparr>))
     = Inr (NOVAPipelineOutput
              [(''images'', PIL_list [PIL_Image \<lparr>shape = [2, 2, 3], elem = (\<lambda>idx. 0)\<rparr>])])
   \<and> snd (call example_lib (example_pipeline [1, 2, 2, 7] 1)
          (default_args (PStr ''a cat'')\<lparr>arg_output_type := ''pil''\<rparr>))
     = Inl TypeError
   \<and> snd (call example_lib (example_pipeline [1, 1, 2, 2, 3] 1)
          (default_args (PStr ''a cat'')\<lparr>arg_output_type := ''np''\<rparr>))
     = Inr (NOVAPipelineOutput
              [(''frames'', Ndarray \<lparr>shape = [1, 1, 2, 2, 3], elem = (\<lambda>idx. 0)\<rparr>)])"
  using call_result_tagging [OF example_call_outputs
          [where lib = example_lib and out_shape = "[1, 2, 2, 3]" and g = 1
             and p = "PStr ''a cat''" and t = "''latent''"]]
        call_result_tagging [OF example_call_outputs
          [where lib = example_lib and out_shape = "[1, 2, 2, 3]" and g = 1
             and p = "PStr ''a cat''" and t = "''np''"]]
        call_result_tagging [OF example_call_outputs
          [where lib = example_lib and out_shape = "[1, 2, 2, 3]" and g = 1
             and p = "PStr ''a cat''" and t = "''pil''"],
          where images = "[PIL_Image \<lparr>shape = [2, 2, 3], elem = (\<lambda>idx. 0)\<rparr>]"]
        call_result_tagging [OF example_call_outputs
          [where lib = example_lib and out_shape = "[1, 2, 2, 7]" and g = 1
             and p = "PStr ''a cat''" and t = "''pil''"],
          where e = TypeError]
        call_result_tagging [OF example_call_outputs
          [where lib = example_lib and out_shape = "[1, 1, 2, 2, 3]" and g = 1
             and p = "PStr ''a cat''" and t = "''np''"]]
  by (simp add: first_axis_def default_args_def example_lib_def example_fromarray_def)

text \<open>
  Claim C9. When \<open>output_type\<close> is neither \<open>''latent''\<close> nor \<open>''pt''\<close> and the post-processed
  tensor has a rank other than 4 and 5, the call raises the \<open>KeyError\<close> of the lookup in
  the rank-to-tag table and returns no output.
\<close>

theorem call_result_bad_rank:
  assumes "call_outputs lib (self\<lparr>guidance_scale := arg_guidance_scale a\<rparr>) a = Inr outputs"
      and "arg_output_type a \<notin> {''latent'', ''pt''}"
      and "length (shape (out_x outputs)) \<noteq> 4"
      and "length (shape (out_x outputs)) \<noteq> 5"
  shows "snd (call lib self a) = Inl KeyError"
  unfolding call_snd assms(1) using assms(2-4)
  by (simp add: call_result_def output_names_def Let_def)

text \<open>
  Claim C9 on the example pipeline with a tensor of rank 3.
\<close>

theorem call_result_bad_rank_witness:
  "snd (call example_lib (example_pipeline [2, 2, 3] 1)
          (default_args (PStr ''a cat'')\<lparr>arg_output_type := ''pil''\<rparr>)) = Inl KeyError"
  using call_result_bad_rank [OF example_call_outputs
          [where lib = example_lib and out_shape = "[2, 2, 3]" and g = 1 and p = "PStr ''a cat''" and t = "''pil''"]]
  by (simp add: default_args_def)

text \<open>
  Claim C10. With \<open>output_type = ''pil''\<close> and a post-processed tensor of rank 5 the result
  is tagged \<open>frames\<close> and holds the numpy array: no PIL image is made.
\<close>

theorem call_result_pil_frames:
  assumes "call_outputs lib (self\<lparr>guidance_scale := arg_guidance_scale a\<rparr>) a = Inr outputs"
      and "arg_output_type a = ''pil''"
      and "length (shape (out_x outputs)) = 5"
  shows "snd (call lib self a) = Inr (NOVAPipelineOutput [(''frames'', Ndarray (out_x outputs))])"
  unfolding call_snd assms(1) using assms(2-3)
  by (simp add: call_result_def output_names_def Let_def)

text \<open>
  Claim C10 on the example pipeline with a tensor of rank 5.
\<close>

theorem call_result_pil_frames_witness:
  "snd (call example_lib (example_pipeline [1, 4, 2, 2, 3] 1)
          (default_args (PStr ''a cat'')\<lparr>arg_output_type := ''pil''\<rparr>))
     = Inr (NOVAPipelineOutput
              [(''frames'', Ndarray \<lparr>shape = [1, 4, 2, 2, 3], elem = (\<lambda>idx. 0)\<rparr>)])"
  using call_result_pil_frames [OF example_call_outputs
          [where lib = example_lib and out_shape = "[1, 4, 2, 2, 3]" and g = 1 and p = "PStr ''a cat''" and t = "''pil''"]]
  by (simp add: default_args_def)

section \<open>\<open>register_module\<close> on a path\<close>

text \<open>
  Claim C3 does not hold of the code. Line 215, \<^verbatim>\<open>model = cls()\<close>, is not in an
  \<^verbatim>\<open>else\<close> branch: it runs after the \<^verbatim>\<open>from_pretrained\<close> branch as well, so the object
  loaded from the path is replaced by a default-constructed one. With a class found for
  the name, the result for a non-empty path is the default-constructed instance. With the
  annotations of \<^verbatim>\<open>__init__\<close> as written (there are none), the lookup of the class raises
  \<open>KeyError\<close>.
\<close>

theorem register_module_overwrites_pretrained:
  "register_module
       [''vae'' \<mapsto> \<lparr>class_name = ''AutoencoderKL'', has_from_pretrained = True,
                      is_nn_module = True\<rparr>]
       ''float16'' ''cuda'' Map.empty (Str ''path/to/vae'') ''vae''
     = Inr (Constructed \<lparr>class_name = ''AutoencoderKL'', has_from_pretrained = True,
                          is_nn_module = True\<rparr>,
            [''vae'' \<mapsto> ''AutoencoderKL''])
   \<and> register_module init_annotations ''float16'' ''cuda'' Map.empty
         (Str ''path/to/vae'') ''vae'' = Inl KeyError"
  by (simp add: register_module_def init_annotations_def Let_def)

end
